theory Spec2Isabelle
  imports Complex_Main "HOL-Library.AList"
begin

section \<open>Data model\<close>

text \<open>
  Go pointers are addresses into a store.  The source never builds a nil
  \<^verbatim>\<open>*APIError\<close> or a nil \<^verbatim>\<open>*rate.Limiter\<close> (every one comes from
  \<^verbatim>\<open>&APIError{...}\<close> or \<^verbatim>\<open>rate.NewLimiter\<close>), so a store is a
  total function from addresses to objects together with the next free address.
  Instants are readings of the monotonic clock in nanoseconds, durations are
  nanoseconds; both are integers.
\<close>

type_synonym addr = nat

subsection \<open>errors.go: APIError\<close>

text \<open>
  \<^verbatim>\<open>Details map[string]string\<close>: \<open>None\<close> is the nil map, \<open>Some kvs\<close> a map
  with the listed entries.
\<close>

record APIError =
  Code :: int
  Message :: string
  Details :: "(string \<times> string) list option"
  RequestID :: string

text \<open>
  A Go \<^verbatim>\<open>error\<close> value: a pointer to an APIError, an error made by
  \<^verbatim>\<open>errors.New\<close>, or an error wrapping another one (\<^verbatim>\<open>fmt.Errorf("...: %w", err)\<close>).
\<close>

datatype error = APIErr addr | Plain string | Wrapped string error

text \<open>
  \<^verbatim>\<open>errors.As(err, &apiErr)\<close> with a target of type \<^verbatim>\<open>*APIError\<close>: the first error of
  the chain that is a \<^verbatim>\<open>*APIError\<close>, found by unwrapping.
\<close>

fun errors_As :: "error \<Rightarrow> addr option" where
  "errors_As (APIErr p) = Some p"
| "errors_As (Plain m) = None"
| "errors_As (Wrapped m e) = errors_As e"

subsection \<open>Configuration\<close>

text \<open>
  The fields of the configuration that the code below reads.  \<^verbatim>\<open>RequestsPerS\<close>, a
  float64 that is only handed to \<^verbatim>\<open>rate.NewLimiter\<close>, is a rational; the durations
  are nanoseconds; \<^verbatim>\<open>Strategy\<close> and \<^verbatim>\<open>LogLevel\<close> are the strings of the source.
\<close>

record RateLimiterConfig =
  Enabled :: bool
  RequestsPerS :: rat
  Burst :: int
  TTL :: int
  Strategy :: string

record CORSConfig =
  CORS_Enabled :: bool
  AllowedOrigins :: "string list"
  AllowedMethods :: "string list"
  AllowedHeaders :: "string list"
  ExposedHeaders :: "string list"
  AllowCredentials :: bool
  MaxAge :: int

record Config =
  AppName :: string
  Port :: int
  LogLevel :: string
  MetricsEnabled :: bool
  HandlerTimeout :: int
  ShutdownTimeout :: int
  RateLimiter :: RateLimiterConfig
  CORS :: CORSConfig

subsection \<open>Requests, contexts and response writers\<close>

text \<open>
  A context key is an \<^verbatim>\<open>interface{}\<close>: two keys are equal when their dynamic types
  and their values are.  The source uses keys of two types, the plain
  \<^verbatim>\<open>string\<close> and the named type \<^verbatim>\<open>contextKey\<close>.
\<close>

datatype ctxkey = StringKey string | ContextKey string

record ctxt =
  ctx_values :: "(ctxkey \<times> string) list"
  ctx_deadline :: "int option"

text \<open>\<^verbatim>\<open>ctx.Value(key)\<close>: the value of the innermost binding of the key.\<close>

definition ctx_Value :: "ctxt \<Rightarrow> ctxkey \<Rightarrow> string option" where
  "ctx_Value ctx k = map_of (ctx_values ctx) k"

definition WithValue :: "ctxt \<Rightarrow> ctxkey \<Rightarrow> string \<Rightarrow> ctxt" where
  "WithValue ctx k v = ctx\<lparr>ctx_values := (k, v) # ctx_values ctx\<rparr>"

text \<open>
  \<^verbatim>\<open>context.WithTimeout(ctx, timeout)\<close> at instant \<open>now\<close>: the deadline is the earlier
  of the parent's and \<open>now + timeout\<close>.
\<close>

definition WithTimeout :: "ctxt \<Rightarrow> int \<Rightarrow> int \<Rightarrow> ctxt" where
  "WithTimeout ctx now timeout =
     ctx\<lparr>ctx_deadline :=
       (case ctx_deadline ctx of
          None \<Rightarrow> Some (now + timeout)
        | Some d \<Rightarrow> Some (min d (now + timeout)))\<rparr>"

definition contextKeyRequestID :: ctxkey where
  "contextKeyRequestID = ContextKey ''request_id''"

record request =
  req_Method :: string
  req_Path :: string
  req_RemoteAddr :: string
  req_Header :: "string \<rightharpoonup> string"
  req_Context :: ctxt

text \<open>\<^verbatim>\<open>r.Header.Get(key)\<close>: the empty string when the header is absent.\<close>

definition Header_Get :: "(string \<rightharpoonup> string) \<Rightarrow> string \<Rightarrow> string" where
  "Header_Get h k = (case h k of None \<Rightarrow> [] | Some v \<Rightarrow> v)"

text \<open>
  An \<^verbatim>\<open>http.ResponseWriter\<close> is the server's own writer or a
  \<^verbatim>\<open>*loggingResponseWriter\<close> around another writer.  The embedded writer and the
  context of a loggingResponseWriter are never reassigned, so they are part of
  the value; its mutable \<^verbatim>\<open>statusCode\<close> lives in the state, under the object's address.
\<close>

datatype writer = RawWriter | LoggingRW addr writer ctxt

datatype json = JInt int | JStr string | JObj "(string \<times> json) list"

datatype level = Debug | Info | Warn | Error

datatype logval = LStr string | LInt int | LErr error

type_synonym logentry = "level \<times> string \<times> (string \<times> logval) list"

text \<open>
  A middleware of the source is a closure; here it is named by a stage, and
  \<open>run_stage\<close> below gives the closure's body.  The deadline stage carries the
  timeout it captured, the cross-origin stage the options it was built from.
\<close>

datatype CORSOption =
    OptAllowedOrigins "string list"
  | OptAllowedMethods "string list"
  | OptAllowedHeaders "string list"
  | OptExposedHeaders "string list"
  | OptAllowCredentials
  | OptMaxAge int

datatype stage =
    RequestIDStage
  | SecurityHeadersStage
  | RateLimiterStage
  | MetricsStage
  | LogStage
  | RecoveryStage
  | TimeoutStage int
  | CORSStage "CORSOption list"

subsection \<open>ratelimiter.go: the registry\<close>

record visitorLimiter =
  limiter :: addr
  lastSeen :: int

text \<open>
  \<^verbatim>\<open>limiters map[string]*visitorLimiter\<close> is an association list of the map's
  entries.  The \<^verbatim>\<open>rate.Limiter\<close> objects that \<open>getLimiter\<close> allocates are kept in
  \<open>lim_objs\<close>, with \<open>lim_next\<close> the next free address; \<open>'l\<close> is the state of one
  \<^verbatim>\<open>rate.Limiter\<close>, a type of the external library golang.org/x/time/rate.
  \<open>cleanup\<close> says whether the ticker \<^verbatim>\<open>cleanup *time.Ticker\<close> is running.
\<close>

record 'l rateLimiter =
  config :: RateLimiterConfig
  limiters :: "(string \<times> visitorLimiter) list"
  lim_objs :: "addr \<Rightarrow> 'l"
  lim_next :: addr
  cleanup :: bool

subsection \<open>The state of the process\<close>

text \<open>
  The App object, the store of APIError objects, the clock, the logger's and the
  metrics' output, and the state of the response of the request being served
  (\<open>resp_header\<close> is the header map, \<open>resp_status\<close> and \<open>resp_sent\<close> the status and the
  headers sent by WriteHeader, \<open>resp_body\<close> the JSON documents written).
  \<open>handler_invocations\<close> is a counter no function of the source touches: it
  is there for a terminal handler that counts its own invocations.
\<close>

record 'l world =
  Config :: Config
  middleware :: "stage list"
  router_middlewares :: "stage list"
  rateLimiter :: "'l rateLimiter option"
  wg :: nat
  cancelled :: bool
  heap :: "addr \<Rightarrow> APIError"
  heap_next :: addr
  clock :: int
  xid_count :: nat
  logs :: "logentry list"
  httpRequestsTotal :: "(string \<times> string \<times> int) list"
  httpDuration :: "(string \<times> string \<times> int) list"
  resp_header :: "string \<rightharpoonup> string"
  resp_status :: "int option"
  resp_sent :: "string \<rightharpoonup> string"
  resp_body :: "json list"
  lrw_statusCode :: "addr \<Rightarrow> int"
  lrw_next :: addr
  handler_invocations :: nat

text \<open>A call returns, or panics with a value (here its message).\<close>

datatype outcome = Returned | Panicked string

type_synonym 'l handler = "writer \<Rightarrow> request \<Rightarrow> 'l world \<Rightarrow> outcome \<times> 'l world"

text \<open>
  What the libraries outside the repository do is a parameter of the model:
  \<^item> \<open>rate_NewLimiter\<close> and \<open>rate_Allow\<close>: golang.org/x/time/rate
    (\<open>rate_Allow l now\<close> is the answer of \<^verbatim>\<open>Allow()\<close> at instant \<open>now\<close> and the
    limiter's new state);
  \<^item> \<open>xid_String\<close>: the n-th identifier that \<^verbatim>\<open>xid.New().String()\<close> returns;
  \<^item> \<open>cors_decide\<close>: gorilla/handlers' CORS handler, which sets response headers
    and then either calls the next handler or answers by itself with a status;
  \<^item> \<open>server_Shutdown\<close>: whether \<^verbatim>\<open>http.Server.Shutdown\<close> sees every connection
    idle within the timeout given; \<open>server_Close\<close>: whether \<^verbatim>\<open>Close\<close> succeeds.
\<close>

datatype cors_result = CorsNext "(string \<times> string) list" | CorsStop "(string \<times> string) list" int

record 'l extern =
  rate_NewLimiter :: "rat \<Rightarrow> int \<Rightarrow> 'l"
  rate_Allow :: "'l \<Rightarrow> int \<Rightarrow> bool \<times> 'l"
  xid_String :: "nat \<Rightarrow> string"
  cors_decide :: "CORSOption list \<Rightarrow> request \<Rightarrow> cors_result"
  server_Shutdown :: "int \<Rightarrow> bool"
  server_Close :: bool

section \<open>errors.go\<close>

text \<open>
  \<^verbatim>\<open>NewAPIError(code, message, details...)\<close> allocates a new object; the variadic
  \<^verbatim>\<open>details\<close> is a list, whose first element, if any, becomes the Details.
\<close>

definition NewAPIError ::
  "int \<Rightarrow> string \<Rightarrow> (string \<times> string) list option list \<Rightarrow> 'l world \<Rightarrow> addr \<times> 'l world" where
  "NewAPIError code message details s =
     (let err = \<lparr>Code = code, Message = message, Details = None, RequestID = []\<rparr>;
          err' = (case details of [] \<Rightarrow> err | d # ds \<Rightarrow> err\<lparr>Details := d\<rparr>);
          p = heap_next s
      in (p, s\<lparr>heap := (heap s)(p := err'), heap_next := Suc p\<rparr>))"

text \<open>
  The package-level \<^verbatim>\<open>ErrInternalServer = NewAPIError(500, "internal server error")\<close>
  is allocated once, when the package is initialised: it is the object at
  address 0 of the initial store.
\<close>

definition ErrInternalServer :: addr where
  "ErrInternalServer = 0"

definition init_heap :: "addr \<Rightarrow> APIError" where
  "init_heap = (\<lambda>p. \<lparr>Code = 500, Message = ''internal server error'', Details = None, RequestID = []\<rparr>)"

text \<open>
  \<^verbatim>\<open>normalizeError\<close>: the pointer found by \<^verbatim>\<open>errors.As\<close>, or a new object; the two
  assignments are made through that pointer.
\<close>

definition normalizeError :: "error \<Rightarrow> string \<Rightarrow> 'l world \<Rightarrow> addr \<times> 'l world" where
  "normalizeError err requestID s =
     (let (apiErr, s1) =
            (case errors_As err of
               Some p \<Rightarrow> (p, s)
             | None \<Rightarrow> NewAPIError 500 ''internal server error'' [] s);
          s2 = s1\<lparr>heap := (heap s1)(apiErr := (heap s1 apiErr)\<lparr>RequestID := requestID\<rparr>)\<rparr>;
          s3 = (if LogLevel (Config s2) \<noteq> ''debug''
                then s2\<lparr>heap := (heap s2)(apiErr := (heap s2 apiErr)\<lparr>Details := None\<rparr>)\<rparr>
                else s2)
      in (apiErr, s3))"

subsection \<open>logger.go: the Logger interface\<close>

text \<open>A call of \<^verbatim>\<open>a.Logger.Debug/Info/Warn/Error\<close> appends one entry to the log.\<close>

definition Logger_log ::
  "level \<Rightarrow> string \<Rightarrow> (string \<times> logval) list \<Rightarrow> 'l world \<Rightarrow> 'l world" where
  "Logger_log lvl msg fs s = s\<lparr>logs := logs s @ [(lvl, msg, fs)]\<rparr>"

subsection \<open>net/http's response writer\<close>

text \<open>
  \<^verbatim>\<open>w.Header().Set(k, v)\<close>: a loggingResponseWriter embeds its writer, so
  \<^verbatim>\<open>Header\<close> and \<^verbatim>\<open>Write\<close> reach the server's writer whatever the wrapping.
\<close>

definition Header_Set :: "string \<Rightarrow> string \<Rightarrow> 'l world \<Rightarrow> 'l world" where
  "Header_Set k v s = s\<lparr>resp_header := (resp_header s)(k \<mapsto> v)\<rparr>"

text \<open>
  \<^verbatim>\<open>WriteHeader\<close> of the server's writer: a second call is ignored, a code
  outside 100..999 panics, otherwise the status and the current headers are sent.
\<close>

definition raw_WriteHeader :: "int \<Rightarrow> 'l world \<Rightarrow> outcome \<times> 'l world" where
  "raw_WriteHeader code s =
     (if resp_status s \<noteq> None then (Returned, s)
      else if code < 100 \<or> code > 999 then (Panicked ''invalid WriteHeader code'', s)
      else (Returned, s\<lparr>resp_status := Some code, resp_sent := resp_header s\<rparr>))"

text \<open>
  \<^verbatim>\<open>func (lrw *loggingResponseWriter) WriteHeader(code int)\<close> records the code and
  passes it on.
\<close>

fun WriteHeader :: "writer \<Rightarrow> int \<Rightarrow> 'l world \<Rightarrow> outcome \<times> 'l world" where
  "WriteHeader RawWriter code s = raw_WriteHeader code s"
| "WriteHeader (LoggingRW a inner ctx) code s =
     WriteHeader inner code (s\<lparr>lrw_statusCode := (lrw_statusCode s)(a := code)\<rparr>)"

text \<open>
  \<^verbatim>\<open>Write\<close> of one JSON document: the status 200 is sent first when no status was.
\<close>

definition Write :: "json \<Rightarrow> 'l world \<Rightarrow> 'l world" where
  "Write doc s =
     (let s1 = (if resp_status s = None
                then s\<lparr>resp_status := Some 200, resp_sent := resp_header s\<rparr> else s)
      in s1\<lparr>resp_body := resp_body s1 @ [doc]\<rparr>)"

text \<open>
  \<^verbatim>\<open>json.NewEncoder(w).Encode(apiError)\<close> follows the struct tags: \<^verbatim>\<open>details\<close> and
  \<^verbatim>\<open>request_id\<close> are \<^verbatim>\<open>omitempty\<close>.
\<close>

definition encode_APIError :: "APIError \<Rightarrow> json" where
  "encode_APIError e =
     JObj ([(''code'', JInt (Code e)), (''message'', JStr (Message e))]
           @ (case Details e of
                None \<Rightarrow> []
              | Some kvs \<Rightarrow>
                  if kvs = [] then []
                  else [(''details'', JObj (map (\<lambda>(k, v). (k, JStr v)) kvs))])
           @ (if RequestID e = [] then [] else [(''request_id'', JStr (RequestID e))]))"

text \<open>The value of a field of a JSON object, if the document has it.\<close>

fun json_field :: "json \<Rightarrow> string \<Rightarrow> json option" where
  "json_field (JObj kvs) k = map_of kvs k"
| "json_field (JInt i) k = None"
| "json_field (JStr v) k = None"

subsection \<open>app.go: getRequestIDFromContext, handleError, JSONError\<close>

text \<open>
  \<^verbatim>\<open>w.(*loggingResponseWriter)\<close> is a type assertion without the ok form: it panics
  on any other writer (the result \<open>None\<close>).  The context of a request is never
  nil.  The key of the lookup is the plain string \<^verbatim>\<open>"request_id"\<close>.
\<close>

fun getRequestIDFromContext :: "writer \<Rightarrow> string option" where
  "getRequestIDFromContext RawWriter = None"
| "getRequestIDFromContext (LoggingRW a inner ctx) =
     Some (case ctx_Value ctx (StringKey ''request_id'') of
             Some reqID \<Rightarrow> reqID
           | None \<Rightarrow> [])"

definition handleError :: "writer \<Rightarrow> error \<Rightarrow> 'l world \<Rightarrow> outcome \<times> 'l world" where
  "handleError w err s =
     (case getRequestIDFromContext w of
        None \<Rightarrow> (Panicked ''interface conversion'', s)
      | Some reqID \<Rightarrow>
          (let (apiError, s1) = normalizeError err reqID s;
               s2 = Logger_log Error ''request error''
                      [(''error'', LErr err), (''request_id'', LStr reqID),
                       (''status_code'', LInt (Code (heap s1 apiError)))] s1;
               s3 = Header_Set ''Content-Type'' ''application/json'' s2
           in case WriteHeader w (Code (heap s3 apiError)) s3 of
                (Panicked m, s4) \<Rightarrow> (Panicked m, s4)
              | (Returned, s4) \<Rightarrow> (Returned, Write (encode_APIError (heap s4 apiError)) s4)))"

definition JSONError :: "writer \<Rightarrow> error \<Rightarrow> 'l world \<Rightarrow> outcome \<times> 'l world" where
  "JSONError w err s = handleError w err s"

section \<open>ratelimiter.go\<close>

text \<open>
  \<^verbatim>\<open>newRateLimiter\<close>: an empty map and a running ticker.  No limiter object is
  allocated yet; an address is read only after \<open>getLimiter\<close> has stored a limiter
  there, so what the store holds at the free addresses does not matter.
\<close>

definition newRateLimiter :: "'l extern \<Rightarrow> RateLimiterConfig \<Rightarrow> 'l rateLimiter" where
  "newRateLimiter ext cfg =
     \<lparr>config = cfg, limiters = [],
      lim_objs = (\<lambda>p. rate_NewLimiter ext (RequestsPerS cfg) (Burst cfg)),
      lim_next = 0, cleanup = True\<rparr>"

text \<open>
  \<^verbatim>\<open>getLimiter(key)\<close> at instant \<open>now\<close> (the reading of \<^verbatim>\<open>time.Now()\<close>), the mutex
  held throughout: the handle returned is the address of the \<^verbatim>\<open>rate.Limiter\<close>.
\<close>

definition getLimiter ::
  "'l extern \<Rightarrow> string \<Rightarrow> int \<Rightarrow> 'l rateLimiter \<Rightarrow> addr \<times> 'l rateLimiter" where
  "getLimiter ext key now rl =
     (case map_of (limiters rl) key of
        None \<Rightarrow>
          (let p = lim_next rl;
               l = rate_NewLimiter ext (RequestsPerS (config rl)) (Burst (config rl))
           in (p, rl\<lparr>limiters := AList.update key \<lparr>limiter = p, lastSeen = now\<rparr> (limiters rl),
                     lim_objs := (lim_objs rl)(p := l),
                     lim_next := Suc p\<rparr>))
      | Some v \<Rightarrow>
          (limiter v, rl\<lparr>limiters := AList.update key (v\<lparr>lastSeen := now\<rparr>) (limiters rl)\<rparr>))"

text \<open>
  One sweep of \<^verbatim>\<open>cleanupStaleVisitors\<close> at instant \<open>now\<close>: the loop over the entries
  of the map, deleting under the lock.  \<^verbatim>\<open>time.Since(v.lastSeen)\<close> is \<open>now - lastSeen v\<close>:
  both instants are readings of the process's monotonic clock, whose difference
  fits a Duration.
\<close>

fun sweep_entries ::
  "int \<Rightarrow> int \<Rightarrow> (string \<times> visitorLimiter) list \<Rightarrow> (string \<times> visitorLimiter) list
     \<Rightarrow> (string \<times> visitorLimiter) list" where
  "sweep_entries now ttl [] m = m"
| "sweep_entries now ttl ((key, v) # es) m =
     sweep_entries now ttl es (if now - lastSeen v > ttl then AList.delete key m else m)"

definition sweep :: "int \<Rightarrow> 'l rateLimiter \<Rightarrow> 'l rateLimiter" where
  "sweep now rl = rl\<lparr>limiters := sweep_entries now (TTL (config rl)) (limiters rl) (limiters rl)\<rparr>"

text \<open>
  \<^verbatim>\<open>for range rl.cleanup.C\<close>: one sweep for each tick the ticker delivers, at the
  instants given; a stopped ticker delivers none.
\<close>

fun cleanupStaleVisitors :: "int list \<Rightarrow> 'l rateLimiter \<Rightarrow> 'l rateLimiter" where
  "cleanupStaleVisitors [] rl = rl"
| "cleanupStaleVisitors (now # ticks) rl =
     (if cleanup rl then cleanupStaleVisitors ticks (sweep now rl) else rl)"


definition getClientIdentifier :: "'l world \<Rightarrow> request \<Rightarrow> string" where
  "getClientIdentifier a r =
     (let strategy = Strategy (RateLimiter (Config a)) in
      if strategy = ''ip'' then
        (let ip = Header_Get (req_Header r) ''X-Forwarded-For''
         in if ip = [] then req_RemoteAddr r else ip)
      else if strategy = ''token'' then Header_Get (req_Header r) ''Authorization''
      else if strategy = ''global'' then ''global''
      else req_RemoteAddr r)"

text \<open>
  \<^verbatim>\<open>rateLimiterMiddleware\<close>.  \<^verbatim>\<open>a.rateLimiter\<close> is nil when NewApp did not create
  the registry; calling \<^verbatim>\<open>getLimiter\<close> on it panics.
\<close>

definition rateLimiterMiddleware :: "'l extern \<Rightarrow> 'l handler \<Rightarrow> 'l handler" where
  "rateLimiterMiddleware ext next w r a =
     (if \<not> Enabled (RateLimiter (Config a)) then next w r a
      else
        let clientID = getClientIdentifier a r in
        if clientID = [] \<and> Strategy (RateLimiter (Config a)) \<noteq> ''global'' then next w r a
        else
          (case rateLimiter a of
             None \<Rightarrow> (Panicked ''nil pointer dereference'', a)
           | Some rl \<Rightarrow>
               (let (p, rl1) = getLimiter ext clientID (clock a) rl;
                    (ok, l') = rate_Allow ext (lim_objs rl1 p) (clock a);
                    a1 = a\<lparr>rateLimiter := Some (rl1\<lparr>lim_objs := (lim_objs rl1)(p := l')\<rparr>)\<rparr>
                in if \<not> ok then
                     (case ctx_Value (req_Context r) contextKeyRequestID of
                        None \<Rightarrow> (Panicked ''interface conversion'', a1)
                      | Some requestID \<Rightarrow>
                          (let a2 = Logger_log Warn ''rate limit exceeded''
                                      [(''client_id'', LStr clientID), (''path'', LStr (req_Path r)),
                                       (''request_id'', LStr requestID)] a1;
                               (apiErr, a3) = NewAPIError 429 ''Rate limit exceeded'' [] a2;
                               a4 = Header_Set ''Retry-After'' ''60'' a3
                           in JSONError w (APIErr apiErr) a4))
                   else next w r a1)))"

section \<open>middleware.go\<close>

definition requestIDMiddleware :: "'l extern \<Rightarrow> 'l handler \<Rightarrow> 'l handler" where
  "requestIDMiddleware ext next w r a =
     (let requestID = xid_String ext (xid_count a);
          a1 = a\<lparr>xid_count := Suc (xid_count a)\<rparr>;
          a2 = Header_Set ''X-Request-ID'' requestID a1;
          ctx = WithValue (req_Context r) contextKeyRequestID requestID
      in next w (r\<lparr>req_Context := ctx\<rparr>) a2)"

text \<open>
  \<^verbatim>\<open>&loggingResponseWriter{...}\<close> allocates a new object with statusCode 200.
\<close>

definition new_loggingResponseWriter ::
  "writer \<Rightarrow> ctxt \<Rightarrow> 'l world \<Rightarrow> writer \<times> addr \<times> 'l world" where
  "new_loggingResponseWriter w ctx a =
     (let p = lrw_next a
      in (LoggingRW p w ctx, p,
          a\<lparr>lrw_statusCode := (lrw_statusCode a)(p := 200), lrw_next := Suc p\<rparr>))"

text \<open>
  A panic below a middleware unwinds through it: the statements after
  \<^verbatim>\<open>next.ServeHTTP\<close> do not run.
\<close>

definition logMiddleware :: "'l handler \<Rightarrow> 'l handler" where
  "logMiddleware next w r a =
     (let start = clock a;
          (lrw, p, a1) = new_loggingResponseWriter w (req_Context r) a
      in case next lrw r a1 of
           (Panicked m, a2) \<Rightarrow> (Panicked m, a2)
         | (Returned, a2) \<Rightarrow>
             (case ctx_Value (req_Context r) contextKeyRequestID of
                None \<Rightarrow> (Panicked ''interface conversion'', a2)
              | Some requestID \<Rightarrow>
                  (Returned,
                   Logger_log Info ''request processed''
                     [(''method'', LStr (req_Method r)), (''path'', LStr (req_Path r)),
                      (''remote_addr'', LStr (req_RemoteAddr r)),
                      (''status'', LInt (lrw_statusCode a2 p)),
                      (''duration'', LInt (clock a2 - start)),
                      (''request_id'', LStr requestID)] a2)))"

text \<open>
  The deferred function of \<^verbatim>\<open>recoveryMiddleware\<close> runs when the call below
  panicked; a panic inside it takes the place of the first one.
\<close>

definition recoveryMiddleware :: "'l handler \<Rightarrow> 'l handler" where
  "recoveryMiddleware next w r a =
     (case next w r a of
        (Returned, a1) \<Rightarrow> (Returned, a1)
      | (Panicked err, a1) \<Rightarrow>
          (case ctx_Value (req_Context r) contextKeyRequestID of
             None \<Rightarrow> (Panicked ''interface conversion'', a1)
           | Some requestID \<Rightarrow>
               (let a2 = Logger_log Error ''panic recovered''
                           [(''error'', LStr err), (''request_id'', LStr requestID)] a1;
                    (apiErr, a3) = NewAPIError 500 ''Internal server error'' [] a2
                in handleError w (APIErr apiErr) a3)))"

definition timeoutMiddleware :: "int \<Rightarrow> 'l handler \<Rightarrow> 'l handler" where
  "timeoutMiddleware timeout next w r a =
     (let ctx = WithTimeout (req_Context r) (clock a) timeout
      in next w (r\<lparr>req_Context := ctx\<rparr>) a)"

text \<open>
  The counter is labelled with the status code (the source labels it with the
  code's decimal digits), the histogram observes the duration.
\<close>

definition metricsMiddleware :: "'l handler \<Rightarrow> 'l handler" where
  "metricsMiddleware next w r a =
     (let start = clock a;
          (lrw, p, a1) = new_loggingResponseWriter w (req_Context r) a
      in case next lrw r a1 of
           (Panicked m, a2) \<Rightarrow> (Panicked m, a2)
         | (Returned, a2) \<Rightarrow>
             (Returned,
              a2\<lparr>httpRequestsTotal :=
                    httpRequestsTotal a2 @ [(req_Method r, req_Path r, lrw_statusCode a2 p)],
                  httpDuration :=
                    httpDuration a2 @ [(req_Method r, req_Path r, clock a2 - start)]\<rparr>))"

definition securityHeadersMiddleware :: "'l handler \<Rightarrow> 'l handler" where
  "securityHeadersMiddleware next w r a =
     (let a1 = Header_Set ''X-Content-Type-Options'' ''nosniff'' a;
          a2 = Header_Set ''X-Frame-Options'' ''DENY'' a1;
          a3 = Header_Set ''X-XSS-Protection'' ''1; mode=block'' a2;
          a4 = Header_Set ''Strict-Transport-Security'' ''max-age=63072000; includeSubDomain'' a3
      in next w r a4)"

text \<open>
  \<^verbatim>\<open>handlers.CORS(options...)\<close> of gorilla/handlers: it sets the headers it
  decides on, then calls the next handler or answers with a status of its own.
\<close>

definition corsMiddleware :: "'l extern \<Rightarrow> CORSOption list \<Rightarrow> 'l handler \<Rightarrow> 'l handler" where
  "corsMiddleware ext opts next w r a =
     (case cors_decide ext opts r of
        CorsNext hs \<Rightarrow> next w r (fold (\<lambda>(k, v). Header_Set k v) hs a)
      | CorsStop hs code \<Rightarrow> WriteHeader w code (fold (\<lambda>(k, v). Header_Set k v) hs a))"

fun run_stage :: "'l extern \<Rightarrow> stage \<Rightarrow> 'l handler \<Rightarrow> 'l handler" where
  "run_stage ext RequestIDStage = requestIDMiddleware ext"
| "run_stage ext SecurityHeadersStage = securityHeadersMiddleware"
| "run_stage ext RateLimiterStage = rateLimiterMiddleware ext"
| "run_stage ext MetricsStage = metricsMiddleware"
| "run_stage ext LogStage = logMiddleware"
| "run_stage ext RecoveryStage = recoveryMiddleware"
| "run_stage ext (TimeoutStage timeout) = timeoutMiddleware timeout"
| "run_stage ext (CORSStage opts) = corsMiddleware ext opts"

section \<open>app.go\<close>

text \<open>\<^verbatim>\<open>Use\<close> appends to \<^verbatim>\<open>a.middleware\<close>.\<close>

definition Use :: "stage \<Rightarrow> 'l world \<Rightarrow> 'l world" where
  "Use m a = a\<lparr>middleware := middleware a @ [m]\<rparr>"

text \<open>
  \<^verbatim>\<open>a.Router.Use\<close> of gorilla/mux appends to the router's own list of middlewares.
\<close>

definition Router_Use :: "stage \<Rightarrow> 'l world \<Rightarrow> 'l world" where
  "Router_Use m a = a\<lparr>router_middlewares := router_middlewares a @ [m]\<rparr>"

definition corsOptions :: "CORSConfig \<Rightarrow> CORSOption list" where
  "corsOptions c =
     (if length (AllowedOrigins c) > 0 then [OptAllowedOrigins (AllowedOrigins c)] else [])
     @ (if length (AllowedMethods c) > 0 then [OptAllowedMethods (AllowedMethods c)] else [])
     @ (if length (AllowedHeaders c) > 0 then [OptAllowedHeaders (AllowedHeaders c)] else [])
     @ (if length (ExposedHeaders c) > 0 then [OptExposedHeaders (ExposedHeaders c)] else [])
     @ (if AllowCredentials c then [OptAllowCredentials] else [])
     @ (if MaxAge c > 0 then [OptMaxAge (MaxAge c)] else [])"

definition setupDefaultMiddleware :: "'l world \<Rightarrow> 'l world" where
  "setupDefaultMiddleware a =
     (let a1 = Use RequestIDStage a;
          a2 = Use SecurityHeadersStage a1;
          a3 = (if Enabled (RateLimiter (Config a2)) then Use RateLimiterStage a2 else a2);
          a4 = (if MetricsEnabled (Config a3) then Use MetricsStage a3 else a3);
          a5 = Use LogStage a4;
          a6 = Use RecoveryStage a5;
          a7 = Use (TimeoutStage (HandlerTimeout (Config a6))) a6
      in if CORS_Enabled (CORS (Config a7))
         then Router_Use (CORSStage (corsOptions (CORS (Config a7)))) a7
         else a7)"

text \<open>
  The struct tags that \<^verbatim>\<open>validate.Struct(config)\<close> checks: \<^verbatim>\<open>Port\<close> is
  \<^verbatim>\<open>required,min=1,max=65535\<close>, \<^verbatim>\<open>LogLevel\<close> and \<^verbatim>\<open>Strategy\<close> are \<^verbatim>\<open>oneof\<close>.
\<close>

definition validate_Config :: "Config \<Rightarrow> bool" where
  "validate_Config c \<longleftrightarrow>
     Port c \<noteq> 0 \<and> 1 \<le> Port c \<and> Port c \<le> 65535
     \<and> LogLevel c \<in> set [''debug'', ''info'', ''warn'', ''error'']
     \<and> Strategy (RateLimiter c) \<in> set [''ip'', ''token'', ''global'']"

text \<open>
  \<^verbatim>\<open>NewApp(config)\<close> with a config given, in a process that has just initialised
  its packages: the store holds \<^verbatim>\<open>ErrInternalServer\<close> only.  The logger and the
  router are assumed to be created without error; the system endpoints
  (\<^verbatim>\<open>/metrics\<close>, \<^verbatim>\<open>/health\<close>) are routes and add no middleware.
\<close>

definition init_App :: "'l extern \<Rightarrow> Config \<Rightarrow> 'l world" where
  "init_App ext cfg =
     \<lparr>Config = cfg, middleware = [], router_middlewares = [],
      rateLimiter =
        (if Enabled (RateLimiter cfg) then Some (newRateLimiter ext (RateLimiter cfg)) else None),
      wg = 0, cancelled = False,
      heap = init_heap, heap_next = Suc ErrInternalServer,
      clock = 0, xid_count = 0, logs = [],
      httpRequestsTotal = [], httpDuration = [],
      resp_header = Map.empty, resp_status = None, resp_sent = Map.empty, resp_body = [],
      lrw_statusCode = (\<lambda>p. 0), lrw_next = 0,
      handler_invocations = 0\<rparr>"

definition NewApp :: "'l extern \<Rightarrow> Config \<Rightarrow> error + 'l world" where
  "NewApp ext cfg =
     (if \<not> validate_Config cfg then Inl (Wrapped ''invalid config'' (Plain ''validation''))
      else Inr (setupDefaultMiddleware (init_App ext cfg)))"

text \<open>\<^verbatim>\<open>applyMiddleware\<close>, the first step of \<^verbatim>\<open>Start\<close>.\<close>

definition applyMiddleware :: "'l world \<Rightarrow> 'l world" where
  "applyMiddleware a = fold Router_Use (middleware a) a"

text \<open>
  A Handler of the application returns nil or an error, or panics.
\<close>

datatype hresult = HNil | HErr error | HPanic string

type_synonym 'l Handler = "ctxt \<Rightarrow> writer \<Rightarrow> request \<Rightarrow> 'l world \<Rightarrow> hresult \<times> 'l world"

text \<open>The closure that \<^verbatim>\<open>Handle\<close> registers for a route.\<close>

definition Handle :: "'l Handler \<Rightarrow> 'l handler" where
  "Handle h w r a =
     (let ctx = req_Context r
      in case h ctx w r a of
           (HNil, a1) \<Rightarrow> (Returned, a1)
         | (HErr err, a1) \<Rightarrow> handleError w err a1
         | (HPanic m, a1) \<Rightarrow> (Panicked m, a1))"

text \<open>
  gorilla/mux, for a request that matches a route: the route's handler is
  wrapped by the router's middlewares from the last one to the first, so that
  the first one added runs first.
\<close>

definition Router_ServeHTTP :: "'l extern \<Rightarrow> 'l handler \<Rightarrow> 'l handler" where
  "Router_ServeHTTP ext route w r a = foldr (run_stage ext) (router_middlewares a) route w r a"



text \<open>
  The startup of \<^verbatim>\<open>Start\<close> up to the point where the server listens: NewApp, then
  applyMiddleware.
\<close>

definition startup :: "'l extern \<Rightarrow> Config \<Rightarrow> error + 'l world" where
  "startup ext cfg = (case NewApp ext cfg of Inl e \<Rightarrow> Inl e | Inr a \<Rightarrow> Inr (applyMiddleware a))"

text \<open>
  net/http gives every request a writer of its own: nothing is sent yet and the
  header map is empty.
\<close>

definition new_response :: "'l world \<Rightarrow> 'l world" where
  "new_response a =
     a\<lparr>resp_header := Map.empty, resp_status := None, resp_sent := Map.empty, resp_body := []\<rparr>"

definition http_serve :: "'l extern \<Rightarrow> 'l handler \<Rightarrow> request \<Rightarrow> 'l world \<Rightarrow> outcome \<times> 'l world" where
  "http_serve ext route r a = Router_ServeHTTP ext route RawWriter r (new_response a)"

section \<open>Notions used by the properties\<close>

text \<open>
  A sequence of \<^verbatim>\<open>getLimiter\<close> calls, each with its key and the instant of the call:
  the handles returned, in order, and the registry afterwards.
\<close>

fun getLimiter_calls ::
  "'l extern \<Rightarrow> (string \<times> int) list \<Rightarrow> 'l rateLimiter \<Rightarrow> addr list \<times> 'l rateLimiter" where
  "getLimiter_calls ext [] rl = ([], rl)"
| "getLimiter_calls ext ((key, now) # cs) rl =
     (let (p, rl1) = getLimiter ext key now rl;
          (ps, rl2) = getLimiter_calls ext cs rl1
      in (p # ps, rl2))"

text \<open>
  The rate-limit gate denies request \<open>r\<close> in state \<open>a\<close>: \<^verbatim>\<open>rateLimiterMiddleware\<close> reaches
  \<^verbatim>\<open>limiter.Allow()\<close> and the answer is false.
\<close>

definition gate_denies :: "'l extern \<Rightarrow> request \<Rightarrow> 'l world \<Rightarrow> bool" where
  "gate_denies ext r a \<longleftrightarrow>
     Enabled (RateLimiter (Config a))
     \<and> (let clientID = getClientIdentifier a r in
          \<not> (clientID = [] \<and> Strategy (RateLimiter (Config a)) \<noteq> ''global'')
          \<and> (case rateLimiter a of
                None \<Rightarrow> False
              | Some rl \<Rightarrow>
                  (let (p, rl1) = getLimiter ext clientID (clock a) rl
                   in \<not> fst (rate_Allow ext (lim_objs rl1 p) (clock a)))))"

text \<open>A terminal handler that counts its invocations before doing its work.\<close>

definition counted :: "'l Handler \<Rightarrow> 'l Handler" where
  "counted h ctx w r a = h ctx w r (a\<lparr>handler_invocations := Suc (handler_invocations a)\<rparr>)"


section \<open>A concrete service\<close>

text \<open>
  Libraries for the examples: a limiter that holds \<open>burst\<close> tokens and is not
  refilled, identifiers \<^verbatim>\<open>req-a\<close>, \<^verbatim>\<open>req-aa\<close>, ..., a cross-origin handler that
  sees no \<^verbatim>\<open>Origin\<close> header and passes every request on, a server that shuts
  down in time.
\<close>

definition demo_ext :: "nat extern" where
  "demo_ext =
     \<lparr>rate_NewLimiter = (\<lambda>rps burst. nat burst),
      rate_Allow = (\<lambda>l now. if l > 0 then (True, l - 1) else (False, l)),
      xid_String = (\<lambda>n. ''req-'' @ replicate (Suc n) (CHR ''a'')),
      cors_decide = (\<lambda>opts r. CorsNext []),
      server_Shutdown = (\<lambda>timeout. True),
      server_Close = True\<rparr>"

text \<open>The defaults of the struct tags, with a burst of one request.\<close>

definition demo_cfg :: Config where
  "demo_cfg =
     \<lparr>AppName = ''micro-service'', Port = 8080, LogLevel = ''info'', MetricsEnabled = True,
      HandlerTimeout = 30000000000, ShutdownTimeout = 10000000000,
      RateLimiter = \<lparr>Enabled = True, RequestsPerS = 100, Burst = 1, TTL = 3600000000000,
                     Strategy = ''ip''\<rparr>,
      CORS = \<lparr>CORS_Enabled = True, AllowedOrigins = [''*''],
              AllowedMethods = [''GET'', ''POST'', ''PUT'', ''DELETE'', ''OPTIONS'', ''HEAD''],
              AllowedHeaders = [''Content-Type'', ''Authorization'', ''X-Requested-With''],
              ExposedHeaders = [], AllowCredentials = False, MaxAge = 300\<rparr>\<rparr>"

text \<open>The service after its startup.\<close>

definition demo_world :: "nat world" where
  "demo_world = applyMiddleware (setupDefaultMiddleware (init_App demo_ext demo_cfg))"

definition demo_req :: request where
  "demo_req =
     \<lparr>req_Method = ''GET'', req_Path = ''/users/1'', req_RemoteAddr = ''10.0.0.1:5000'',
      req_Header = Map.empty, req_Context = \<lparr>ctx_values = [], ctx_deadline = None\<rparr>\<rparr>"

text \<open>
  Terminal handlers: one that succeeds, one that fails with the package's
  sentinel as \<^verbatim>\<open>RegisterUser\<close> does, one that logs the pending-request counter it
  sees.
\<close>

definition okHandler :: "nat Handler" where
  "okHandler ctx w r a = (HNil, a)"

definition failingHandler :: "nat Handler" where
  "failingHandler ctx w r a = (HErr (APIErr ErrInternalServer), a)"


text \<open>
  The service after one request of the client of \<open>demo_req\<close>: its only token is
  spent.
\<close>

definition exhausted_world :: "nat world" where
  "exhausted_world = snd (http_serve demo_ext (Handle okHandler) demo_req demo_world)"

text \<open>
  The same service under the per-credential-token strategy, with limiters that
  hold no token at all: every request that consults a bucket is denied.
\<close>

definition token_cfg :: Config where
  "token_cfg = demo_cfg\<lparr>RateLimiter := (RateLimiter demo_cfg)\<lparr>Strategy := ''token'', Burst := 0\<rparr>\<rparr>"

definition token_world :: "nat world" where
  "token_world = applyMiddleware (setupDefaultMiddleware (init_App demo_ext token_cfg))"

section \<open>Properties of the error normalisation\<close>

text \<open>
  C9.  For every error value and request id, when the configured log level is
  not "debug", the error that normalizeError returns, the one written to the
  client, has no Details: whether the error is an APIError a caller attached
  details to (a 4xx validation failure, say), an error wrapping one, or any
  other error.
\<close>

theorem normalizeError_strips_details:
  "LogLevel (Config s) \<noteq> ''debug'' \<Longrightarrow>
   Details (heap (snd (normalizeError err requestID s)) (fst (normalizeError err requestID s))) = None"
  by (simp add: normalizeError_def NewAPIError_def Let_def split: option.splits prod.splits)

theorem normalizeError_strips_details_witness:
  "LogLevel (Config demo_world) \<noteq> ''debug''
   \<and> (let (p, a) = NewAPIError 400 ''invalid path parameter''
                        [Some [(''parameter'', ''id''), (''value'', ''x'')]] demo_world
      in Details (heap a p) = Some [(''parameter'', ''id''), (''value'', ''x'')]
         \<and> Details (heap (snd (normalizeError (APIErr p) ''req-a'' a))
                         (fst (normalizeError (APIErr p) ''req-a'' a))) = None)"
proof -
  let ?a = "snd (NewAPIError 400 ''invalid path parameter''
                   [Some [(''parameter'', ''id''), (''value'', ''x'')]] demo_world)"
  let ?p = "fst (NewAPIError 400 ''invalid path parameter''
                   [Some [(''parameter'', ''id''), (''value'', ''x'')]] demo_world)"
  have l: "LogLevel (Config ?a) \<noteq> ''debug''"
    by (simp add: NewAPIError_def demo_world_def applyMiddleware_def setupDefaultMiddleware_def
        Use_def Router_Use_def init_App_def demo_cfg_def Let_def)
  have l0: "LogLevel (Config demo_world) \<noteq> ''debug''"
    by (simp add: demo_world_def applyMiddleware_def setupDefaultMiddleware_def
        Use_def Router_Use_def init_App_def demo_cfg_def Let_def)
  have d: "Details (heap ?a ?p) = Some [(''parameter'', ''id''), (''value'', ''x'')]"
    by (simp add: NewAPIError_def Let_def)
  from normalizeError_strips_details [OF l, of "APIErr ?p" "''req-a''"] l0 d
  show ?thesis by (simp add: case_prod_beta)
qed

lemma normalizeError_in_place:
  "errors_As err = Some p \<Longrightarrow>
   fst (normalizeError err requestID s) = p \<and>
   heap_next (snd (normalizeError err requestID s)) = heap_next s \<and>
   RequestID (heap (snd (normalizeError err requestID s)) p) = requestID"
  by (simp add: normalizeError_def Let_def)


section \<open>Properties of the registry\<close>

lemma sweep_entries_map_of:
  "distinct (map fst es) \<Longrightarrow>
   map_of (sweep_entries now ttl es m) k =
     (case map_of es k of
        None \<Rightarrow> map_of m k
      | Some v \<Rightarrow> if now - lastSeen v > ttl then None else map_of m k)"
proof (induction es arbitrary: m)
  case Nil
  then show ?case by simp
next
  case (Cons e es)
  obtain key v where e: "e = (key, v)" by (cases e)
  from Cons.prems e have d: "distinct (map fst es)" and nk: "key \<notin> fst ` set es" by auto
  from nk have none: "map_of es key = None" by (simp add: map_of_eq_None_iff)
  show ?case
    using Cons.IH [OF d] none e
    by (auto simp: delete_conv' split: option.splits)
qed

lemma sweep_entries_distinct:
  "distinct (map fst m) \<Longrightarrow> distinct (map fst (sweep_entries now ttl es m))"
  by (induction es arbitrary: m) (auto simp: distinct_delete)

lemma sweep_lookup:
  assumes "distinct (map fst (limiters rl))"
  shows "map_of (limiters (sweep now rl)) key =
     (case map_of (limiters rl) key of
        None \<Rightarrow> None
      | Some v \<Rightarrow> if now - lastSeen v > TTL (config rl) then None else Some v)"
  using sweep_entries_map_of [OF assms, of now "TTL (config rl)" "limiters rl" key]
  by (simp add: sweep_def split: option.splits)

text \<open>
  C6.  For every registry (one entry per key) and every sweep instant, after one
  sweep a key is in the registry if and only if it was there with an idle time
  (sweep instant minus lastSeen) of at most the ttl: an entry idle for longer
  is removed, every other entry is left as it was, and the sweep touches nothing
  else of the registry.
\<close>

theorem sweep_evicts_exactly_the_idle:
  assumes "distinct (map fst (limiters rl))"
  shows "(key \<in> dom (map_of (limiters (sweep now rl))) \<longleftrightarrow>
            (\<exists>v. map_of (limiters rl) key = Some v \<and> now - lastSeen v \<le> TTL (config rl)))
         \<and> (\<forall>v. map_of (limiters rl) key = Some v \<and> now - lastSeen v \<le> TTL (config rl)
                \<longrightarrow> map_of (limiters (sweep now rl)) key = Some v)
         \<and> (\<forall>v. map_of (limiters rl) key = Some v \<and> now - lastSeen v > TTL (config rl)
                \<longrightarrow> map_of (limiters (sweep now rl)) key = None)
         \<and> distinct (map fst (limiters (sweep now rl)))
         \<and> lim_objs (sweep now rl) = lim_objs rl \<and> lim_next (sweep now rl) = lim_next rl"
proof -
  have "distinct (map fst (limiters (sweep now rl)))"
    using assms by (simp add: sweep_def sweep_entries_distinct)
  moreover have "lim_objs (sweep now rl) = lim_objs rl \<and> lim_next (sweep now rl) = lim_next rl"
    by (simp add: sweep_def)
  ultimately show ?thesis
    using sweep_lookup [OF assms, of now key]
    by (auto split: option.splits if_splits)
qed

theorem sweep_witness:
  "distinct (map fst [(''old'', \<lparr>limiter = 0, lastSeen = 0\<rparr>), (''recent'', \<lparr>limiter = 1, lastSeen = 120000000000\<rparr>)])
   \<and> map_of (limiters (sweep 3660000000000
        \<lparr>config = RateLimiter demo_cfg,
         limiters = [(''old'', \<lparr>limiter = 0, lastSeen = 0\<rparr>), (''recent'', \<lparr>limiter = 1, lastSeen = 120000000000\<rparr>)],
         lim_objs = (\<lambda>p. 1::nat), lim_next = 2, cleanup = True\<rparr>)) ''old'' = None
   \<and> map_of (limiters (sweep 3660000000000
        \<lparr>config = RateLimiter demo_cfg,
         limiters = [(''old'', \<lparr>limiter = 0, lastSeen = 0\<rparr>), (''recent'', \<lparr>limiter = 1, lastSeen = 120000000000\<rparr>)],
         lim_objs = (\<lambda>p. 1::nat), lim_next = 2, cleanup = True\<rparr>)) ''recent''
       = Some \<lparr>limiter = 1, lastSeen = 120000000000\<rparr>"
  using sweep_evicts_exactly_the_idle [of
        "\<lparr>config = RateLimiter demo_cfg,
         limiters = [(''old'', \<lparr>limiter = 0, lastSeen = 0\<rparr>), (''recent'', \<lparr>limiter = 1, lastSeen = 120000000000\<rparr>)],
         lim_objs = (\<lambda>p. 1::nat), lim_next = 2, cleanup = True\<rparr>" "''recent''" 3660000000000]
     sweep_evicts_exactly_the_idle [of
        "\<lparr>config = RateLimiter demo_cfg,
         limiters = [(''old'', \<lparr>limiter = 0, lastSeen = 0\<rparr>), (''recent'', \<lparr>limiter = 1, lastSeen = 120000000000\<rparr>)],
         lim_objs = (\<lambda>p. 1::nat), lim_next = 2, cleanup = True\<rparr>" "''old''" 3660000000000]
  by (simp add: demo_cfg_def)

lemma getLimiter_lookup_same:
  "\<exists>v. map_of (limiters (snd (getLimiter ext key now rl))) key = Some v
       \<and> limiter v = fst (getLimiter ext key now rl)"
  by (auto simp: getLimiter_def Let_def update_conv' split: option.splits)

lemma getLimiter_keeps_handle:
  assumes "map_of (limiters rl) k = Some v"
  shows "\<exists>v'. map_of (limiters (snd (getLimiter ext key now rl))) k = Some v'
       \<and> limiter v' = limiter v"
  using assms by (auto simp: getLimiter_def Let_def update_conv' split: option.splits)

lemma getLimiter_distinct:
  "distinct (map fst (limiters rl)) \<Longrightarrow> distinct (map fst (limiters (snd (getLimiter ext key now rl))))"
  by (auto simp: getLimiter_def Let_def distinct_update split: option.splits)

lemma getLimiter_calls_keeps_handle:
  "map_of (limiters rl) k = Some v \<Longrightarrow>
   \<exists>v'. map_of (limiters (snd (getLimiter_calls ext cs rl))) k = Some v' \<and> limiter v' = limiter v"
proof (induction cs arbitrary: rl v)
  case Nil
  then show ?case by simp
next
  case (Cons c cs)
  obtain key now where c: "c = (key, now)" by (cases c)
  from getLimiter_keeps_handle [OF Cons.prems, of ext key now]
  obtain v1 where v1: "map_of (limiters (snd (getLimiter ext key now rl))) k = Some v1"
    and l1: "limiter v1 = limiter v" by blast
  from Cons.IH [OF v1] l1 show ?case
    by (simp add: c case_prod_beta)
qed

lemma getLimiter_calls_registered:
  "i < length cs \<Longrightarrow>
   \<exists>v. map_of (limiters (snd (getLimiter_calls ext cs rl))) (fst (cs ! i)) = Some v
      \<and> limiter v = fst (getLimiter_calls ext cs rl) ! i"
proof (induction cs arbitrary: rl i)
  case Nil
  then show ?case by simp
next
  case (Cons c cs)
  obtain key now where c: "c = (key, now)" by (cases c)
  let ?rl1 = "snd (getLimiter ext key now rl)"
  show ?case
  proof (cases i)
    case 0
    from getLimiter_lookup_same [of ext key now rl]
    obtain v where v: "map_of (limiters ?rl1) key = Some v"
      and lv: "limiter v = fst (getLimiter ext key now rl)" by blast
    from getLimiter_calls_keeps_handle [OF v, of ext cs] lv 0 show ?thesis
      by (simp add: c case_prod_beta)
  next
    case (Suc i')
    with Cons.prems have "i' < length cs" by simp
    from Cons.IH [OF this, of ?rl1] Suc show ?thesis
      by (simp add: c case_prod_beta)
  qed
qed

lemma getLimiter_calls_distinct:
  "distinct (map fst (limiters rl)) \<Longrightarrow>
   distinct (map fst (limiters (snd (getLimiter_calls ext cs rl))))"
proof (induction cs arbitrary: rl)
  case Nil
  then show ?case by simp
next
  case (Cons c cs)
  obtain key now where c: "c = (key, now)" by (cases c)
  from Cons.IH [OF getLimiter_distinct [OF Cons.prems, of ext key now]]
  show ?case by (simp add: c case_prod_beta)
qed

lemma map_of_None_keys: "map_of xs k = None \<longleftrightarrow> k \<notin> fst ` set xs"
  by (simp add: map_of_eq_None_iff)

lemma getLimiter_keys:
  "fst ` set (limiters (snd (getLimiter ext key now rl))) = insert key (fst ` set (limiters rl))"
proof (cases "map_of (limiters rl) key")
  case None
  then show ?thesis by (simp add: getLimiter_def Let_def dom_update)
next
  case (Some v)
  then show ?thesis by (simp add: getLimiter_def dom_update)
qed

lemma getLimiter_lim_next:
  "lim_next (snd (getLimiter ext key now rl)) =
     (if key \<in> fst ` set (limiters rl) then lim_next rl else Suc (lim_next rl))"
proof (cases "map_of (limiters rl) key")
  case None
  moreover from None have "key \<notin> fst ` set (limiters rl)"
    by (simp add: map_of_eq_None_iff [symmetric])
  ultimately show ?thesis by (simp add: getLimiter_def Let_def)
next
  case (Some v)
  moreover have "key \<in> fst ` set (limiters rl) \<longleftrightarrow> map_of (limiters rl) key \<noteq> None"
    by (simp add: map_of_eq_None_iff)
  with Some have "key \<in> fst ` set (limiters rl)" by simp
  ultimately show ?thesis by (simp add: getLimiter_def)
qed

lemma getLimiter_calls_allocations:
  "lim_next (snd (getLimiter_calls ext cs rl)) =
     lim_next rl + card (fst ` set cs - fst ` set (limiters rl))"
proof (induction cs arbitrary: rl)
  case Nil
  then show ?case by simp
next
  case (Cons c cs)
  obtain key now where c: "c = (key, now)" by (cases c)
  let ?K = "fst ` set (limiters rl)" and ?T = "fst ` set cs"
  have fin: "finite (?T - insert key ?K)" by simp
  have step: "lim_next (snd (getLimiter_calls ext (c # cs) rl)) =
      (if key \<in> ?K then lim_next rl else Suc (lim_next rl)) + card (?T - insert key ?K)"
    using Cons.IH [of "snd (getLimiter ext key now rl)"]
    by (simp add: c case_prod_beta getLimiter_keys getLimiter_lim_next)
  have keys: "fst ` set (c # cs) = insert key ?T" by (simp add: c)
  show ?case
  proof (cases "key \<in> ?K")
    case True
    then have "insert key ?T - ?K = ?T - insert key ?K" by auto
    then have cardeq: "card (fst ` set (c # cs) - ?K) = card (?T - insert key ?K)"
      by (simp only: keys)
    from step True
    have "lim_next (snd (getLimiter_calls ext (c # cs) rl)) = lim_next rl + card (?T - insert key ?K)"
      by (simp only: if_True)
    with cardeq show ?thesis by (simp only:)
  next
    case False
    then have "insert key ?T - ?K = insert key (?T - insert key ?K)" by auto
    then have "card (fst ` set (c # cs) - ?K) = card (insert key (?T - insert key ?K))"
      by (simp only: keys)
    moreover have "key \<notin> ?T - insert key ?K" by simp
    then have "card (insert key (?T - insert key ?K)) = Suc (card (?T - insert key ?K))"
      by (rule card_insert_disjoint [OF fin])
    ultimately have cardeq: "card (fst ` set (c # cs) - ?K) = Suc (card (?T - insert key ?K))"
      by (simp only:)
    from step False
    have "lim_next (snd (getLimiter_calls ext (c # cs) rl)) = Suc (lim_next rl) + card (?T - insert key ?K)"
      by (simp only: if_False)
    with cardeq show ?thesis by (simp only: add_Suc add_Suc_right)
  qed
qed

text \<open>
  C5.  For every sequence of getLimiter calls on a registry: two calls with the
  same key return the same handle (so each the handle of the first call for that
  key), which is the limiter the registry holds for the key afterwards; the
  registry keeps one entry per key; and a limiter object is allocated only for a
  key the registry did not hold, once.
\<close>

theorem getLimiter_one_bucket_per_key:
  assumes "distinct (map fst (limiters rl))"
  shows "(\<forall>i j. i < length cs \<and> j < length cs \<and> fst (cs ! i) = fst (cs ! j)
            \<longrightarrow> fst (getLimiter_calls ext cs rl) ! i = fst (getLimiter_calls ext cs rl) ! j)
       \<and> (\<forall>i. i < length cs \<longrightarrow>
            map_option limiter (map_of (limiters (snd (getLimiter_calls ext cs rl))) (fst (cs ! i)))
              = Some (fst (getLimiter_calls ext cs rl) ! i))
       \<and> distinct (map fst (limiters (snd (getLimiter_calls ext cs rl))))
       \<and> lim_next (snd (getLimiter_calls ext cs rl)) =
            lim_next rl + card (fst ` set cs - fst ` set (limiters rl))"
proof -
  have reg: "\<And>i. i < length cs \<Longrightarrow>
      map_option limiter (map_of (limiters (snd (getLimiter_calls ext cs rl))) (fst (cs ! i)))
        = Some (fst (getLimiter_calls ext cs rl) ! i)"
    using getLimiter_calls_registered [of _ cs ext rl] by fastforce
  have same: "\<And>i j. i < length cs \<Longrightarrow> j < length cs \<Longrightarrow> fst (cs ! i) = fst (cs ! j)
      \<Longrightarrow> fst (getLimiter_calls ext cs rl) ! i = fst (getLimiter_calls ext cs rl) ! j"
  proof -
    fix i j
    assume "i < length cs" "j < length cs" "fst (cs ! i) = fst (cs ! j)"
    with reg [of i] reg [of j] show "fst (getLimiter_calls ext cs rl) ! i = fst (getLimiter_calls ext cs rl) ! j"
      by simp
  qed
  show ?thesis
    using reg same getLimiter_calls_distinct [OF assms, of ext cs]
      getLimiter_calls_allocations [of ext cs rl]
    by blast
qed

theorem getLimiter_one_bucket_per_key_witness:
  "distinct (map fst (limiters (newRateLimiter demo_ext (RateLimiter demo_cfg))))
   \<and> fst (getLimiter_calls demo_ext [(''10.0.0.1'', 5), (''10.0.0.2'', 6), (''10.0.0.1'', 7)]
            (newRateLimiter demo_ext (RateLimiter demo_cfg))) ! 0
     = fst (getLimiter_calls demo_ext [(''10.0.0.1'', 5), (''10.0.0.2'', 6), (''10.0.0.1'', 7)]
            (newRateLimiter demo_ext (RateLimiter demo_cfg))) ! 2"
proof -
  let ?rl = "newRateLimiter demo_ext (RateLimiter demo_cfg)"
  let ?cs = "[(''10.0.0.1'', 5), (''10.0.0.2'', 6), (''10.0.0.1'', 7)] :: (string \<times> int) list"
  have d: "distinct (map fst (limiters ?rl))"
    by (simp add: newRateLimiter_def)
  from getLimiter_one_bucket_per_key [OF d, of ?cs demo_ext]
  have "\<forall>i j. i < length ?cs \<and> j < length ?cs \<and> fst (?cs ! i) = fst (?cs ! j)
            \<longrightarrow> fst (getLimiter_calls demo_ext ?cs ?rl) ! i = fst (getLimiter_calls demo_ext ?cs ?rl) ! j"
    by (rule conjunct1)
  then have "0 < length ?cs \<and> 2 < length ?cs \<and> fst (?cs ! 0) = fst (?cs ! 2)
            \<longrightarrow> fst (getLimiter_calls demo_ext ?cs ?rl) ! 0 = fst (getLimiter_calls demo_ext ?cs ?rl) ! 2"
    by blast
  then have "fst (getLimiter_calls demo_ext ?cs ?rl) ! 0 = fst (getLimiter_calls demo_ext ?cs ?rl) ! 2"
    by simp
  with d show ?thesis by (rule conjI)
qed

section \<open>Properties of the rate-limit gate and of the chain\<close>

lemma gate_denies_cong:
  assumes "Config a' = Config a" "rateLimiter a' = rateLimiter a" "clock a' = clock a"
    and "req_Header r' = req_Header r" "req_RemoteAddr r' = req_RemoteAddr r"
  shows "gate_denies ext r' a' = gate_denies ext r a"
  unfolding gate_denies_def getClientIdentifier_def assms by (rule refl)

lemma fold_Header_Set_frame:
  "Config (fold (\<lambda>(k, v). Header_Set k v) hs a) = Config a
   \<and> rateLimiter (fold (\<lambda>(k, v). Header_Set k v) hs a) = rateLimiter a
   \<and> clock (fold (\<lambda>(k, v). Header_Set k v) hs a) = clock a
   \<and> handler_invocations (fold (\<lambda>(k, v). Header_Set k v) hs a) = handler_invocations a
   \<and> wg (fold (\<lambda>(k, v). Header_Set k v) hs a) = wg a"
  by (induction hs arbitrary: a) (auto simp: Header_Set_def)

lemma WriteHeader_frame:
  "handler_invocations (snd (WriteHeader w code s)) = handler_invocations s
   \<and> wg (snd (WriteHeader w code s)) = wg s"
  by (induction w arbitrary: s) (auto simp: raw_WriteHeader_def)

lemma handleError_frame:
  "handler_invocations (snd (handleError w err s)) = handler_invocations s
   \<and> wg (snd (handleError w err s)) = wg s"
proof (cases "getRequestIDFromContext w")
  case None
  then show ?thesis by (simp add: handleError_def)
next
  case (Some reqID)
  let ?s3 = "Header_Set ''Content-Type'' ''application/json''
      (Logger_log Error ''request error''
         [(''error'', LErr err), (''request_id'', LStr reqID),
          (''status_code'', LInt (Code (heap (snd (normalizeError err reqID s)) (fst (normalizeError err reqID s)))))]
         (snd (normalizeError err reqID s)))"
  have s3: "handler_invocations ?s3 = handler_invocations s \<and> wg ?s3 = wg s"
    by (simp add: Header_Set_def Logger_log_def normalizeError_def NewAPIError_def Let_def
        split: option.splits)
  obtain out s4 where w: "WriteHeader w (Code (heap ?s3 (fst (normalizeError err reqID s)))) ?s3 = (out, s4)"
    by (cases "WriteHeader w (Code (heap ?s3 (fst (normalizeError err reqID s)))) ?s3")
  from WriteHeader_frame [of w "Code (heap ?s3 (fst (normalizeError err reqID s)))" ?s3] w s3
  have s4: "handler_invocations s4 = handler_invocations s \<and> wg s4 = wg s" by simp
  show ?thesis
    using Some w s4
    by (cases out) (simp_all add: handleError_def case_prod_beta Let_def Write_def)
qed

lemma rateLimiter_deny_indep:
  "gate_denies ext r a \<Longrightarrow>
   rateLimiterMiddleware ext next w r a = rateLimiterMiddleware ext next' w r a"
  by (auto simp: rateLimiterMiddleware_def gate_denies_def Let_def split: option.splits prod.splits)

lemma rateLimiter_deny_frame:
  assumes "gate_denies ext r a"
  shows "handler_invocations (snd (rateLimiterMiddleware ext next w r a)) = handler_invocations a
       \<and> wg (snd (rateLimiterMiddleware ext next w r a)) = wg a"
  using assms
  by (auto simp: rateLimiterMiddleware_def gate_denies_def Let_def JSONError_def NewAPIError_def
      Header_Set_def Logger_log_def handleError_frame [THEN conjunct1]
      handleError_frame [THEN conjunct2] split: option.splits prod.splits)

lemma typed_key_is_not_the_string_key:
  "ctx_Value (WithValue ctx contextKeyRequestID requestID) (StringKey ''request_id'')
     = ctx_Value ctx (StringKey ''request_id'')"
  by (simp add: ctx_Value_def WithValue_def contextKeyRequestID_def)

lemma denial_on_server_writer_panics:
  assumes "gate_denies ext r a"
  shows "(\<exists>m. fst (rateLimiterMiddleware ext next RawWriter r a) = Panicked m)
         \<and> resp_status (snd (rateLimiterMiddleware ext next RawWriter r a)) = resp_status a
         \<and> resp_body (snd (rateLimiterMiddleware ext next RawWriter r a)) = resp_body a"
  using assms
  by (auto simp: rateLimiterMiddleware_def gate_denies_def Let_def JSONError_def handleError_def
      NewAPIError_def Header_Set_def Logger_log_def split: option.splits prod.splits)

lemma stages_before_gate:
  assumes "set pre \<subseteq> insert RequestIDStage (insert SecurityHeadersStage (range CORSStage))"
  shows "(\<exists>r' a'. gate_denies ext r' a' = gate_denies ext r a
                  \<and> handler_invocations a' = handler_invocations a
                  \<and> (\<forall>g. foldr (run_stage ext) pre g w r a = g w r' a'))
         \<or> (\<exists>res. handler_invocations (snd res) = handler_invocations a
                  \<and> (\<forall>g. foldr (run_stage ext) pre g w r a = res))"
  using assms
proof (induction pre arbitrary: r a)
  case Nil
  have "\<forall>g. foldr (run_stage ext) [] g w r a = g w r a" by simp
  then show ?case by blast
next
  case (Cons st pre)
  from Cons.prems have sub: "set pre \<subseteq> insert RequestIDStage (insert SecurityHeadersStage (range CORSStage))"
    and st: "st = RequestIDStage \<or> st = SecurityHeadersStage \<or> (\<exists>opts. st = CORSStage opts)"
    by auto
  have pass: "?case"
    if step: "\<forall>g. run_stage ext st (foldr (run_stage ext) pre g) w r a = foldr (run_stage ext) pre g w r1 a1"
      and d: "gate_denies ext r1 a1 = gate_denies ext r a"
      and inv: "handler_invocations a1 = handler_invocations a" for r1 a1
  proof -
    from Cons.IH [OF sub, of r1 a1] show ?thesis
    proof
      assume "\<exists>r' a'. gate_denies ext r' a' = gate_denies ext r1 a1
                  \<and> handler_invocations a' = handler_invocations a1
                  \<and> (\<forall>g. foldr (run_stage ext) pre g w r1 a1 = g w r' a')"
      then obtain r' a' where "gate_denies ext r' a' = gate_denies ext r1 a1"
        "handler_invocations a' = handler_invocations a1"
        "\<forall>g. foldr (run_stage ext) pre g w r1 a1 = g w r' a'" by blast
      with step d inv have "gate_denies ext r' a' = gate_denies ext r a
          \<and> handler_invocations a' = handler_invocations a
          \<and> (\<forall>g. foldr (run_stage ext) (st # pre) g w r a = g w r' a')" by simp
      then show ?thesis by blast
    next
      assume "\<exists>res. handler_invocations (snd res) = handler_invocations a1
                  \<and> (\<forall>g. foldr (run_stage ext) pre g w r1 a1 = res)"
      then obtain res where "handler_invocations (snd res) = handler_invocations a1"
        "\<forall>g. foldr (run_stage ext) pre g w r1 a1 = res" by blast
      with step inv have "handler_invocations (snd res) = handler_invocations a
          \<and> (\<forall>g. foldr (run_stage ext) (st # pre) g w r a = res)" by simp
      then show ?thesis by blast
    qed
  qed
  from st consider (rid) "st = RequestIDStage" | (sec) "st = SecurityHeadersStage"
    | (cors) opts where "st = CORSStage opts" by blast
  then show ?case
  proof cases
    case rid
    let ?r = "r\<lparr>req_Context := WithValue (req_Context r) contextKeyRequestID (xid_String ext (xid_count a))\<rparr>"
    let ?a = "Header_Set ''X-Request-ID'' (xid_String ext (xid_count a)) (a\<lparr>xid_count := Suc (xid_count a)\<rparr>)"
    have d: "gate_denies ext ?r ?a = gate_denies ext r a"
      by (rule gate_denies_cong) (simp_all add: Header_Set_def)
    have inv: "handler_invocations ?a = handler_invocations a" by (simp add: Header_Set_def)
    have "\<forall>g. run_stage ext st (foldr (run_stage ext) pre g) w r a = foldr (run_stage ext) pre g w ?r ?a"
      using rid by (simp add: requestIDMiddleware_def Let_def)
    from pass [OF this d inv] show ?thesis .
  next
    case sec
    let ?a = "Header_Set ''Strict-Transport-Security'' ''max-age=63072000; includeSubDomain''
               (Header_Set ''X-XSS-Protection'' ''1; mode=block''
                 (Header_Set ''X-Frame-Options'' ''DENY''
                   (Header_Set ''X-Content-Type-Options'' ''nosniff'' a)))"
    have d: "gate_denies ext r ?a = gate_denies ext r a"
      by (rule gate_denies_cong) (simp_all add: Header_Set_def)
    have inv: "handler_invocations ?a = handler_invocations a" by (simp add: Header_Set_def)
    have "\<forall>g. run_stage ext st (foldr (run_stage ext) pre g) w r a = foldr (run_stage ext) pre g w r ?a"
      using sec by (simp add: securityHeadersMiddleware_def Let_def)
    from pass [OF this d inv] show ?thesis .
  next
    case cors
    show ?thesis
    proof (cases "cors_decide ext opts r")
      case (CorsNext hs)
      let ?a = "fold (\<lambda>(k, v). Header_Set k v) hs a"
      have d: "gate_denies ext r ?a = gate_denies ext r a"
        by (rule gate_denies_cong) (simp_all add: fold_Header_Set_frame)
      have inv: "handler_invocations ?a = handler_invocations a" by (simp add: fold_Header_Set_frame)
      have "\<forall>g. run_stage ext st (foldr (run_stage ext) pre g) w r a = foldr (run_stage ext) pre g w r ?a"
        using cors CorsNext by (simp add: corsMiddleware_def)
      from pass [OF this d inv] show ?thesis .
    next
      case (CorsStop hs code)
      let ?res = "WriteHeader w code (fold (\<lambda>(k, v). Header_Set k v) hs a)"
      have "handler_invocations (snd ?res) = handler_invocations a
          \<and> (\<forall>g. foldr (run_stage ext) (st # pre) g w r a = ?res)"
        using cors CorsStop by (simp add: corsMiddleware_def WriteHeader_frame fold_Header_Set_frame)
      then show ?thesis by blast
    qed
  qed
qed

text \<open>
  C2.  For every request that the rate-limit gate denies, in a chain whose
  stages before it are those the startup puts there (request id, security
  headers, cross-origin policy), the chain halts there: the outcome and the final
  state are those of the same chain with any other stages after it and
  any other terminal handler, so none of them runs; and a terminal handler
  that counts its invocations finds its counter unchanged by the request.
\<close>

theorem denied_request_halts_at_gate:
  assumes chain: "router_middlewares a = pre @ RateLimiterStage # post"
    and pre: "set pre \<subseteq> insert RequestIDStage (insert SecurityHeadersStage (range CORSStage))"
    and deny: "gate_denies ext r a"
  shows "Router_ServeHTTP ext route w r a
           = foldr (run_stage ext) (pre @ RateLimiterStage # post') route' w r a
         \<and> handler_invocations (snd (Router_ServeHTTP ext (Handle (counted h)) w r a))
           = handler_invocations a"
proof -
  have unfold: "\<And>ps rt. foldr (run_stage ext) (pre @ RateLimiterStage # ps) rt w r a
      = foldr (run_stage ext) pre (rateLimiterMiddleware ext (foldr (run_stage ext) ps rt)) w r a"
    by simp
  from stages_before_gate [OF pre, of ext r a w]
  have "(\<forall>ps rt ps' rt'. foldr (run_stage ext) (pre @ RateLimiterStage # ps) rt w r a
            = foldr (run_stage ext) (pre @ RateLimiterStage # ps') rt' w r a)
        \<and> (\<forall>ps rt. handler_invocations (snd (foldr (run_stage ext) (pre @ RateLimiterStage # ps) rt w r a))
            = handler_invocations a)"
  proof
    assume "\<exists>r' a'. gate_denies ext r' a' = gate_denies ext r a
                  \<and> handler_invocations a' = handler_invocations a
                  \<and> (\<forall>g. foldr (run_stage ext) pre g w r a = g w r' a')"
    then obtain r' a' where d: "gate_denies ext r' a'"
      and inv: "handler_invocations a' = handler_invocations a"
      and run: "\<And>g. foldr (run_stage ext) pre g w r a = g w r' a'"
      using deny by blast
    show ?thesis
      using rateLimiter_deny_indep [OF d] rateLimiter_deny_frame [OF d] inv
      by (simp only: unfold run) metis
  next
    assume "\<exists>res. handler_invocations (snd res) = handler_invocations a
                  \<and> (\<forall>g. foldr (run_stage ext) pre g w r a = res)"
    then obtain res where "handler_invocations (snd res) = handler_invocations a"
      and "\<And>g. foldr (run_stage ext) pre g w r a = res" by blast
    then show ?thesis by (simp only: unfold) simp
  qed
  then show ?thesis
    by (simp only: Router_ServeHTTP_def chain)
qed

text \<open>
  C7, as the code has it.  Under the per-credential-token strategy a request
  whose Authorization header is empty has the empty client identifier, and the
  gate passes it to the next handler as it is: no bucket is looked up or
  created and no token is taken.
\<close>

theorem empty_token_bypasses_gate:
  assumes "Strategy (RateLimiter (Config a)) = ''token''"
    and "Header_Get (req_Header r) ''Authorization'' = []"
  shows "getClientIdentifier a r = []
         \<and> rateLimiterMiddleware ext next w r a = next w r a"
  using assms by (simp add: rateLimiterMiddleware_def getClientIdentifier_def)

text \<open>
  C3, as the code has it.  After startup the router's chain is, in this order
  from the outermost stage to the innermost: the cross-origin policy when it is
  enabled, request-id assignment, security headers, the rate-limit gate when
  rate limiting is enabled, metrics capture when metrics are enabled, structured
  logging, panic recovery, deadline enforcement; and the router runs exactly
  this chain around the route's handler.
\<close>

theorem startup_chain_order:
  assumes "startup ext cfg = Inr a"
  shows "router_middlewares a =
           (if CORS_Enabled (CORS cfg) then [CORSStage (corsOptions (CORS cfg))] else [])
           @ [RequestIDStage, SecurityHeadersStage]
           @ (if Enabled (RateLimiter cfg) then [RateLimiterStage] else [])
           @ (if MetricsEnabled cfg then [MetricsStage] else [])
           @ [LogStage, RecoveryStage, TimeoutStage (HandlerTimeout cfg)]
         \<and> Router_ServeHTTP ext route w r a =
             foldr (run_stage ext)
               ((if CORS_Enabled (CORS cfg) then [CORSStage (corsOptions (CORS cfg))] else [])
                @ [RequestIDStage, SecurityHeadersStage]
                @ (if Enabled (RateLimiter cfg) then [RateLimiterStage] else [])
                @ (if MetricsEnabled cfg then [MetricsStage] else [])
                @ [LogStage, RecoveryStage, TimeoutStage (HandlerTimeout cfg)]) route w r a"
  using assms
  by (auto simp: startup_def NewApp_def setupDefaultMiddleware_def Use_def Router_Use_def
      applyMiddleware_def init_App_def Router_ServeHTTP_def Let_def split: if_splits)

section \<open>The concrete service, evaluated\<close>

lemmas chain_defs =
  http_serve_def new_response_def Router_ServeHTTP_def corsMiddleware_def requestIDMiddleware_def
  securityHeadersMiddleware_def rateLimiterMiddleware_def metricsMiddleware_def logMiddleware_def
  recoveryMiddleware_def timeoutMiddleware_def Handle_def handleError_def JSONError_def
  normalizeError_def NewAPIError_def getClientIdentifier_def Header_Get_def getLimiter_def
  Header_Set_def WithValue_def WithTimeout_def new_loggingResponseWriter_def ctx_Value_def
  contextKeyRequestID_def Logger_log_def raw_WriteHeader_def Write_def encode_APIError_def
  ErrInternalServer_def init_heap_def

lemmas startup_defs =
  init_App_def setupDefaultMiddleware_def Use_def Router_Use_def applyMiddleware_def
  corsOptions_def newRateLimiter_def ErrInternalServer_def

lemma demo_world_fields:
  "Config demo_world = demo_cfg"
  "router_middlewares demo_world =
     [CORSStage [OptAllowedOrigins [''*''],
                 OptAllowedMethods [''GET'', ''POST'', ''PUT'', ''DELETE'', ''OPTIONS'', ''HEAD''],
                 OptAllowedHeaders [''Content-Type'', ''Authorization'', ''X-Requested-With''],
                 OptMaxAge 300],
      RequestIDStage, SecurityHeadersStage, RateLimiterStage, MetricsStage, LogStage,
      RecoveryStage, TimeoutStage 30000000000]"
  "rateLimiter demo_world =
     Some \<lparr>config = RateLimiter demo_cfg, limiters = [], lim_objs = (\<lambda>p. 1), lim_next = 0,
           cleanup = True\<rparr>"
  "wg demo_world = 0" "clock demo_world = 0" "xid_count demo_world = 0"
  "heap demo_world = init_heap" "heap_next demo_world = 1" "logs demo_world = []"
  "httpRequestsTotal demo_world = []" "httpDuration demo_world = []"
  "lrw_next demo_world = 0" "handler_invocations demo_world = 0"
  by (simp_all add: demo_world_def startup_defs demo_ext_def demo_cfg_def Let_def)

lemma exhausted_world_fields:
  "Config exhausted_world = demo_cfg"
  "router_middlewares exhausted_world = router_middlewares demo_world"
  "rateLimiter exhausted_world =
     Some \<lparr>config = RateLimiter demo_cfg,
           limiters = [(''10.0.0.1:5000'', \<lparr>limiter = 0, lastSeen = 0\<rparr>)],
           lim_objs = (\<lambda>p. 1)(0 := 0), lim_next = 1, cleanup = True\<rparr>"
  "wg exhausted_world = 0" "clock exhausted_world = 0" "xid_count exhausted_world = 1"
  "heap exhausted_world = init_heap" "heap_next exhausted_world = 1"
  "lrw_next exhausted_world = 2" "handler_invocations exhausted_world = 0"
  by (simp_all add: exhausted_world_def demo_world_fields demo_cfg_def demo_ext_def demo_req_def
      okHandler_def chain_defs Let_def)

text \<open>
  C1, on the code.  The second request of a client with a burst of one is denied
  by \<open>rateLimiterMiddleware\<close>, which sits before the metrics and logging stages, so its
  writer is the server's own and \<open>getRequestIDFromContext\<close> panics in
  \<open>handleError\<close>: no status is sent, no Retry-After header, no body.
\<close>

theorem denied_request_gets_no_response:
  "gate_denies demo_ext demo_req exhausted_world
   \<and> fst (http_serve demo_ext (Handle okHandler) demo_req exhausted_world)
       = Panicked ''interface conversion''
   \<and> resp_status (snd (http_serve demo_ext (Handle okHandler) demo_req exhausted_world)) = None
   \<and> resp_sent (snd (http_serve demo_ext (Handle okHandler) demo_req exhausted_world)) ''Retry-After'' = None
   \<and> resp_body (snd (http_serve demo_ext (Handle okHandler) demo_req exhausted_world)) = []"
  by (simp add: gate_denies_def exhausted_world_fields demo_world_fields demo_cfg_def demo_ext_def
      demo_req_def okHandler_def chain_defs Let_def)

text \<open>
  C4, on the code.  A handler fails with the sentinel error.  The response
  carries X-Request-ID \<^verbatim>\<open>req-a\<close>, and a body with code and message only:
  \<open>getRequestIDFromContext\<close> looks the id up under the plain string key, the
  request-id stage stored it under the typed key, and the empty id is omitted
  from the body.
\<close>

theorem error_body_lacks_request_id:
  "fst (http_serve demo_ext (Handle failingHandler) demo_req demo_world) = Returned
   \<and> resp_status (snd (http_serve demo_ext (Handle failingHandler) demo_req demo_world)) = Some 500
   \<and> resp_sent (snd (http_serve demo_ext (Handle failingHandler) demo_req demo_world)) ''X-Request-ID''
       = Some ''req-a''
   \<and> resp_body (snd (http_serve demo_ext (Handle failingHandler) demo_req demo_world))
       = [JObj [(''code'', JInt 500), (''message'', JStr ''internal server error'')]]
   \<and> json_field (hd (resp_body (snd (http_serve demo_ext (Handle failingHandler) demo_req demo_world))))
        ''request_id'' = None"
  by (simp add: demo_world_fields demo_cfg_def demo_ext_def demo_req_def failingHandler_def
      chain_defs Let_def)

lemma token_world_fields:
  "Config token_world = token_cfg"
  "router_middlewares token_world = router_middlewares demo_world"
  "rateLimiter token_world =
     Some \<lparr>config = RateLimiter token_cfg, limiters = [], lim_objs = (\<lambda>p. 0), lim_next = 0,
           cleanup = True\<rparr>"
  "wg token_world = 0" "clock token_world = 0" "xid_count token_world = 0"
  "heap token_world = init_heap" "heap_next token_world = 1"
  "lrw_next token_world = 0" "handler_invocations token_world = 0"
  by (simp_all add: token_world_def demo_world_fields startup_defs demo_ext_def token_cfg_def
      demo_cfg_def Let_def)

text \<open>
  C7 as stated fails.  Under the per-credential-token strategy, with limiters
  that hold no token, a request without Authorization header is admitted: the
  terminal handler runs once and the registry holds no bucket afterwards, while
  the same request with a credential is denied.
\<close>

theorem empty_token_is_not_limited:
  "Strategy (RateLimiter (Config token_world)) = ''token''
   \<and> Header_Get (req_Header demo_req) ''Authorization'' = []
   \<and> fst (http_serve demo_ext (Handle (counted okHandler)) demo_req token_world) = Returned
   \<and> handler_invocations (snd (http_serve demo_ext (Handle (counted okHandler)) demo_req token_world)) = 1
   \<and> map_option limiters (rateLimiter (snd (http_serve demo_ext (Handle (counted okHandler)) demo_req token_world)))
       = Some []
   \<and> gate_denies demo_ext (demo_req\<lparr>req_Header := [''Authorization'' \<mapsto> ''Bearer t'']\<rparr>) token_world"
  by (simp add: gate_denies_def token_world_fields demo_world_fields token_cfg_def demo_cfg_def
      demo_ext_def demo_req_def okHandler_def counted_def chain_defs Let_def)

theorem empty_token_bypasses_gate_witness:
  "Strategy (RateLimiter (Config token_world)) = ''token''
   \<and> Header_Get (req_Header demo_req) ''Authorization'' = []
   \<and> rateLimiterMiddleware demo_ext (Handle okHandler) RawWriter demo_req token_world
       = Handle okHandler RawWriter demo_req token_world"
proof -
  have s: "Strategy (RateLimiter (Config token_world)) = ''token''"
    by (simp add: token_world_fields token_cfg_def)
  have h: "Header_Get (req_Header demo_req) ''Authorization'' = []"
    by (simp add: Header_Get_def demo_req_def)
  from s h empty_token_bypasses_gate [OF s h, of demo_ext "Handle okHandler" RawWriter]
  show ?thesis by simp
qed

text \<open>
  C3 as stated fails.  With every stage enabled the chain after startup begins
  with the cross-origin policy and ends with deadline enforcement: it is not
  the order that has the cross-origin policy last.
\<close>

theorem startup_puts_cors_first:
  "startup demo_ext demo_cfg = Inr demo_world
   \<and> router_middlewares demo_world =
       [CORSStage [OptAllowedOrigins [''*''],
                   OptAllowedMethods [''GET'', ''POST'', ''PUT'', ''DELETE'', ''OPTIONS'', ''HEAD''],
                   OptAllowedHeaders [''Content-Type'', ''Authorization'', ''X-Requested-With''],
                   OptMaxAge 300],
        RequestIDStage, SecurityHeadersStage, RateLimiterStage, MetricsStage, LogStage,
        RecoveryStage, TimeoutStage 30000000000]
   \<and> router_middlewares demo_world \<noteq>
       [RequestIDStage, SecurityHeadersStage, RateLimiterStage, MetricsStage, LogStage,
        RecoveryStage, TimeoutStage 30000000000,
        CORSStage [OptAllowedOrigins [''*''],
                   OptAllowedMethods [''GET'', ''POST'', ''PUT'', ''DELETE'', ''OPTIONS'', ''HEAD''],
                   OptAllowedHeaders [''Content-Type'', ''Authorization'', ''X-Requested-With''],
                   OptMaxAge 300]]"
proof -
  have s: "startup demo_ext demo_cfg = Inr demo_world"
    by (simp add: startup_def NewApp_def validate_Config_def demo_world_def demo_cfg_def)
  show ?thesis
    by (simp add: s demo_world_fields)
qed

theorem startup_chain_order_witness:
  "startup demo_ext demo_cfg = Inr demo_world
   \<and> router_middlewares demo_world =
       [CORSStage (corsOptions (CORS demo_cfg)),
        RequestIDStage, SecurityHeadersStage, RateLimiterStage, MetricsStage, LogStage,
        RecoveryStage, TimeoutStage (HandlerTimeout demo_cfg)]"
proof -
  have s: "startup demo_ext demo_cfg = Inr demo_world"
    by (simp add: startup_def NewApp_def validate_Config_def demo_world_def demo_cfg_def)
  have c: "CORS_Enabled (CORS demo_cfg)" "Enabled (RateLimiter demo_cfg)" "MetricsEnabled demo_cfg"
    by (simp_all add: demo_cfg_def)
  from startup_chain_order [OF s, of "Handle okHandler" RawWriter demo_req] s c
  show ?thesis by simp
qed

theorem denied_request_halts_at_gate_witness:
  "router_middlewares exhausted_world =
     [CORSStage (corsOptions (CORS demo_cfg)), RequestIDStage, SecurityHeadersStage]
     @ RateLimiterStage # [MetricsStage, LogStage, RecoveryStage, TimeoutStage 30000000000]
   \<and> set [CORSStage (corsOptions (CORS demo_cfg)), RequestIDStage, SecurityHeadersStage]
       \<subseteq> insert RequestIDStage (insert SecurityHeadersStage (range CORSStage))
   \<and> gate_denies demo_ext demo_req exhausted_world
   \<and> Router_ServeHTTP demo_ext (Handle (counted okHandler)) RawWriter demo_req exhausted_world
       = foldr (run_stage demo_ext)
           ([CORSStage (corsOptions (CORS demo_cfg)), RequestIDStage, SecurityHeadersStage]
            @ RateLimiterStage # []) (Handle failingHandler) RawWriter demo_req exhausted_world
   \<and> handler_invocations
        (snd (Router_ServeHTTP demo_ext (Handle (counted okHandler)) RawWriter demo_req exhausted_world))
       = handler_invocations exhausted_world"
proof -
  let ?pre = "[CORSStage (corsOptions (CORS demo_cfg)), RequestIDStage, SecurityHeadersStage]"
  let ?post = "[MetricsStage, LogStage, RecoveryStage, TimeoutStage 30000000000]"
  have c: "router_middlewares exhausted_world = ?pre @ RateLimiterStage # ?post"
    by (simp add: exhausted_world_fields demo_world_fields corsOptions_def demo_cfg_def)
  have p: "set ?pre \<subseteq> insert RequestIDStage (insert SecurityHeadersStage (range CORSStage))"
    by simp
  have d: "gate_denies demo_ext demo_req exhausted_world"
    by (simp add: gate_denies_def exhausted_world_fields demo_cfg_def demo_ext_def demo_req_def
        getClientIdentifier_def Header_Get_def getLimiter_def Let_def)
  from denied_request_halts_at_gate [OF c p d, of "Handle (counted okHandler)" RawWriter "[]"
      "Handle failingHandler" okHandler] c p d
  show ?thesis by blast
qed

section \<open>The pending-request counter and graceful shutdown\<close>











end
